theory Spec2Isabelle
  imports Main "HOL-Library.Sublist"
begin

section \<open>The page script of the network scanner: static/script.js\<close>

text \<open>
  The script registers one listener for the \<^verbatim>\<open>DOMContentLoaded\<close> event. The listener
  \<^item> compares \<^verbatim>\<open>window.location.pathname\<close> with \<^verbatim>\<open>'/'\<close> and, when they are equal, calls
    \<^verbatim>\<open>setTimeout\<close> with a callback that reloads the page and a delay of 30000;
  \<^item> queries the document with the selector \<^verbatim>\<open>[data-bs-toggle="tooltip"]\<close>, copies the
    node list into an array and maps \<^verbatim>\<open>new bootstrap.Tooltip(el)\<close> over it.

  The listener is modelled as a function on the state it can observe (path, document,
  the global \<^verbatim>\<open>bootstrap\<close>) that also returns the log of the calls it made to its
  environment, in the order it made them, and how it ended: normally or with an
  exception that nothing in the script catches.
\<close>

subsection \<open>The document\<close>

text \<open>
  A node is an element (with an identity, a tag name, its attributes in source order and
  its children) or a text node. The parser keeps the first of two attributes with
  one name, which is what \<open>map_of\<close> reads. Attribute names are the ones stored in the
  document (the parser has lower-cased them); values are compared as they are.
\<close>

datatype node =
    Element (nid: nat) (tagName: string) (attributes: "(string \<times> string) list")
            (childNodes: "node list")
  | Text string

fun getAttribute :: "node \<Rightarrow> string \<Rightarrow> string option" where
  "getAttribute (Element i t as cs) name = map_of as name"
| "getAttribute (Text s) name = None"

text \<open>Tree order (a node before its children, children left to right), elements only.\<close>

fun tree_order :: "node \<Rightarrow> node list" where
  "tree_order (Element i t as cs) = Element i t as cs # concat (map tree_order cs)"
| "tree_order (Text s) = []"

definition document_order :: "node list \<Rightarrow> node list" where
  "document_order doc = concat (map tree_order doc)"

text \<open>
  The one selector the script uses is an attribute selector \<^verbatim>\<open>[name="value"]\<close>: it
  matches an element that has the attribute with exactly that value.
\<close>

datatype selector = AttrEquals string string

fun matches :: "selector \<Rightarrow> node \<Rightarrow> bool" where
  "matches (AttrEquals name v) n = (getAttribute n name = Some v)"

definition querySelectorAll :: "node list \<Rightarrow> selector \<Rightarrow> node list" where
  "querySelectorAll doc sel = filter (matches sel) (document_order doc)"

subsection \<open>The environment of the listener\<close>

text \<open>
  The exceptions a run of the listener can end with. The script has no \<^verbatim>\<open>try\<close>, so an
  exception ends the listener and is its result.
  \<open>ReferenceError\<close>: the identifier \<^verbatim>\<open>bootstrap\<close> is not declared.
  \<open>TypeError\<close>: \<^verbatim>\<open>bootstrap.Tooltip\<close> is not a constructor.
  \<open>Thrown\<close>: any other value the constructor of the widget library throws (the
  constructor may also throw one of the two above).
\<close>

datatype fault = ReferenceError | TypeError | Thrown string

text \<open>
  The widget library is not part of the script. It is a parameter: the global object, if
  any (\<open>None\<close>: the identifier is not declared), with its \<^verbatim>\<open>Tooltip\<close> member, if any
  (\<open>Library None\<close>: the object has no constructor of that name), which returns a
  controller of an unknown type \<open>'c\<close> or throws.
\<close>

datatype 'c library = Library (Tooltip: "(node \<Rightarrow> fault + 'c) option")

text \<open>The body of the arrow function given to \<^verbatim>\<open>setTimeout\<close>: \<^verbatim>\<open>window.location.reload()\<close>.\<close>

datatype action = Reload

text \<open>The calls the listener makes to its environment.\<close>

datatype effect =
    GetPathname
  | SetTimeout action nat
  | QuerySelectorAll selector
  | NewTooltip node

record 'c state =
  pathname :: string
  document :: "node list"
  bootstrap :: "'c library option"
  effects :: "effect list"

definition emit :: "effect \<Rightarrow> 'c state \<Rightarrow> 'c state" where
  "emit e s = s\<lparr>effects := effects s @ [e]\<rparr>"

subsection \<open>The listener\<close>

text \<open>
  \<^verbatim>\<open>if (window.location.pathname === '/') { setTimeout(() => { window.location.reload(); }, 30000); }\<close>
\<close>

definition auto_refresh :: "'c state \<Rightarrow> 'c state" where
  "auto_refresh s =
     (let s1 = emit GetPathname s in
      if pathname s1 = ''/'' then emit (SetTimeout Reload 30000) s1 else s1)"

text \<open>
  \<^verbatim>\<open>new bootstrap.Tooltip(tooltipTriggerEl)\<close>: the identifier is resolved, then its
  member, and only then is the constructor called, with the element as its one argument.
  A call that throws has still been made: it is in the log.
\<close>

definition new_Tooltip :: "node \<Rightarrow> 'c state \<Rightarrow> 'c state \<times> (fault + 'c)" where
  "new_Tooltip el s =
     (case bootstrap s of
        None \<Rightarrow> (s, Inl ReferenceError)
      | Some lib \<Rightarrow>
          (case Tooltip lib of
             None \<Rightarrow> (s, Inl TypeError)
           | Some ctor \<Rightarrow> (emit (NewTooltip el) s, ctor el)))"

text \<open>
  \<^verbatim>\<open>tooltipTriggerList.map(function (tooltipTriggerEl) { return new bootstrap.Tooltip(tooltipTriggerEl); })\<close>:
  the callback runs on the elements from left to right; an exception ends the loop.
\<close>

fun tooltip_map :: "node list \<Rightarrow> 'c state \<Rightarrow> 'c state \<times> (fault + 'c list)" where
  "tooltip_map [] s = (s, Inr [])"
| "tooltip_map (el # els) s =
     (case new_Tooltip el s of
        (s1, Inl f) \<Rightarrow> (s1, Inl f)
      | (s1, Inr c) \<Rightarrow>
          (case tooltip_map els s1 of
             (s2, Inl f) \<Rightarrow> (s2, Inl f)
           | (s2, Inr cs) \<Rightarrow> (s2, Inr (c # cs))))"

definition marker :: selector where
  "marker = AttrEquals ''data-bs-toggle'' ''tooltip''"

text \<open>
  \<^verbatim>\<open>var tooltipTriggerList = [].slice.call(document.querySelectorAll('[data-bs-toggle="tooltip"]'));\<close>
  \<^verbatim>\<open>var tooltipList = tooltipTriggerList.map(...);\<close>
  The array is a copy of the query's result, taken before the first constructor call.
\<close>

definition tooltip_init :: "'c state \<Rightarrow> 'c state \<times> (fault + 'c list)" where
  "tooltip_init s =
     (let s1 = emit (QuerySelectorAll marker) s;
          tooltipTriggerList = querySelectorAll (document s1) marker
      in tooltip_map tooltipTriggerList s1)"

text \<open>The listener: both parts in the order of the source; \<^verbatim>\<open>tooltipList\<close> is dropped.\<close>

definition onDOMContentLoaded :: "'c state \<Rightarrow> 'c state \<times> (fault + unit)" where
  "onDOMContentLoaded s =
     (case tooltip_init (auto_refresh s) of
        (s1, Inl f) \<Rightarrow> (s1, Inl f)
      | (s1, Inr tooltipList) \<Rightarrow> (s1, Inr ()))"

text \<open>One page load: the event is dispatched once, on a state with an empty log.\<close>

definition page_load :: "string \<Rightarrow> node list \<Rightarrow> 'c library option \<Rightarrow> 'c state \<times> (fault + unit)" where
  "page_load path doc lib =
     onDOMContentLoaded \<lparr>pathname = path, document = doc, bootstrap = lib, effects = []\<rparr>"

subsection \<open>Reading the log\<close>

fun timeout_of :: "effect \<Rightarrow> (nat \<times> action) list" where
  "timeout_of (SetTimeout a d) = [(d, a)]"
| "timeout_of e = []"

fun target_of :: "effect \<Rightarrow> node list" where
  "target_of (NewTooltip el) = [el]"
| "target_of e = []"

text \<open>The timers a log has armed, as (delay, action), and the elements it built a tooltip on.\<close>

definition scheduled :: "effect list \<Rightarrow> (nat \<times> action) list" where
  "scheduled es = concat (map timeout_of es)"

definition constructed :: "effect list \<Rightarrow> node list" where
  "constructed es = concat (map target_of es)"

definition marked_elements :: "node list \<Rightarrow> node list" where
  "marked_elements doc = filter (matches marker) (document_order doc)"

definition unmarked_elements :: "node list \<Rightarrow> node list" where
  "unmarked_elements doc = filter (\<lambda>n. \<not> matches marker n) (document_order doc)"

fun query_of :: "effect \<Rightarrow> selector list" where
  "query_of (QuerySelectorAll sel) = [sel]"
| "query_of e = []"

text \<open>The selectors a log has queried the document with.\<close>

definition queries :: "effect list \<Rightarrow> selector list" where
  "queries es = concat (map query_of es)"

text \<open>
  Two elements that are the same element (by identity) and agree on the value, or the
  absence, of the attribute \<^verbatim>\<open>data-bs-toggle\<close>; they may differ in everything else.
\<close>

definition same_marker :: "node \<Rightarrow> node \<Rightarrow> bool" where
  "same_marker a b \<longleftrightarrow>
     nid a = nid b \<and> getAttribute a ''data-bs-toggle'' = getAttribute b ''data-bs-toggle''"

subsection \<open>The timers of the hosting environment\<close>

text \<open>
  \<^verbatim>\<open>setTimeout(f, d)\<close> arms a timer that runs \<open>f\<close> once, not before \<open>d\<close> milliseconds have
  passed, and is then gone. The listener returns at once, so every timer of a page load
  is armed at time 0 and its delay is its expiry time. The loop below is the
  environment after the listener has returned: time passes in steps, each step runs the
  timers that are due and keeps the others. \<open>reloads\<close> counts the runs of the callback of
  the script, each of which calls \<^verbatim>\<open>window.location.reload()\<close> once.
\<close>

record loop =
  clock :: nat
  pending :: "(nat \<times> action) list"
  reloads :: nat

definition start :: "effect list \<Rightarrow> loop" where
  "start es = \<lparr>clock = 0, pending = scheduled es, reloads = 0\<rparr>"

definition advance :: "nat \<Rightarrow> loop \<Rightarrow> loop" where
  "advance dt l =
     (let t = clock l + dt;
          due = filter (\<lambda>(d, a). d \<le> t) (pending l);
          later = filter (\<lambda>(d, a). \<not> d \<le> t) (pending l)
      in \<lparr>clock = t, pending = later,
          reloads = reloads l + length (filter (\<lambda>(d, a). a = Reload) due)\<rparr>)"

fun run :: "nat list \<Rightarrow> loop \<Rightarrow> loop" where
  "run [] l = l"
| "run (dt # dts) l = run dts (advance dt l)"

subsection \<open>Sample inputs\<close>

text \<open>
  A page with three marked elements (2, 4 and 6, the second nested in an unmarked one)
  and four unmarked ones, one of which carries the attribute with another value.
\<close>

definition sample_document :: "node list" where
  "sample_document =
    [Element 0 ''html'' []
      [Element 1 ''body'' []
        [Element 2 ''a'' [(''href'', ''/scan''), (''data-bs-toggle'', ''tooltip''), (''title'', ''Scan'')]
           [Text ''Scan''],
         Element 3 ''button'' [(''data-bs-toggle'', ''modal'')]
           [Element 4 ''span'' [(''data-bs-toggle'', ''tooltip'')] []],
         Element 5 ''p'' [] [Text ''hosts''],
         Element 6 ''i'' [(''data-bs-toggle'', ''tooltip''), (''title'', ''Up'')] []]]]"

text \<open>The same page with other attributes changed, added and removed.\<close>

definition restyled_document :: "node list" where
  "restyled_document =
    [Element 0 ''html'' [(''lang'', ''en'')]
      [Element 1 ''body'' [(''class'', ''dark'')]
        [Element 2 ''a'' [(''data-bs-toggle'', ''tooltip''), (''title'', ''Start a scan'')]
           [Text ''Scan''],
         Element 3 ''button'' [(''data-bs-toggle'', ''modal''), (''data-bs-target'', ''#m'')]
           [Element 4 ''span'' [(''class'', ''badge''), (''data-bs-toggle'', ''tooltip'')] []],
         Element 5 ''p'' [] [],
         Element 6 ''i'' [(''data-bs-toggle'', ''tooltip'')] []]]]"

text \<open>A page without marked elements.\<close>

definition plain_document :: "node list" where
  "plain_document =
    [Element 0 ''html'' []
      [Element 1 ''body'' []
        [Element 2 ''button'' [(''data-bs-toggle'', ''modal'')] [Text ''Open'']]]]"

text \<open>A library stub whose controller is the identity of the element.\<close>

definition stub_library :: "nat library option" where
  "stub_library = Some (Library (Some (\<lambda>el. Inr (nid el))))"

text \<open>The library is not loaded: the identifier \<^verbatim>\<open>bootstrap\<close> is not declared.\<close>

definition no_library :: "nat library option" where
  "no_library = None"

section \<open>Properties\<close>

subsection \<open>Shared lemmas\<close>

lemma scheduled_NewTooltip: "scheduled (map NewTooltip els) = []"
  by (induction els) (simp_all add: scheduled_def)

lemma constructed_append: "constructed (xs @ ys) = constructed xs @ constructed ys"
  by (simp add: constructed_def)

lemma constructed_NewTooltip: "constructed (map NewTooltip els) = els"
  by (induction els) (simp_all add: constructed_def)

text \<open>
  The loop over the array, for a fixed library and a fixed array: it logs constructor
  calls on a prefix \<open>pre\<close> of the array and nothing else, changes no other field of the
  state, and the prefix and the result do not depend on the rest of the state.
\<close>

lemma tooltip_map_shape:
  "\<exists>pre r. prefix pre els \<and>
     (\<forall>cs. r = Inr cs \<longrightarrow> pre = els) \<and>
     (\<forall>s. bootstrap s = lib \<longrightarrow>
        tooltip_map els s = (s\<lparr>effects := effects s @ map NewTooltip pre\<rparr>, r))"
  (is "\<exists>pre r. ?P els pre r")
proof (induction els)
  case Nil
  have "?P [] [] (Inr [])" by simp
  then show ?case by blast
next
  case (Cons el els)
  then obtain pre r where IH: "?P els pre r" by blast
  show ?case
  proof (cases lib)
    case None
    then have "?P (el # els) [] (Inl ReferenceError)"
      by (simp add: new_Tooltip_def)
    then show ?thesis by blast
  next
    case (Some l)
    show ?thesis
    proof (cases "Tooltip l")
      case None
      with Some have "?P (el # els) [] (Inl TypeError)"
        by (simp add: new_Tooltip_def)
      then show ?thesis by blast
    next
      case ctor: (Some ctor)
      show ?thesis
      proof (cases "ctor el")
        case (Inl f)
        with Some ctor have "?P (el # els) [el] (Inl f)"
          by (simp add: new_Tooltip_def emit_def)
        then show ?thesis by blast
      next
        case (Inr c)
        let ?r = "case r of Inl f \<Rightarrow> Inl f | Inr cs \<Rightarrow> Inr (c # cs)"
        have "tooltip_map (el # els) s = (s\<lparr>effects := effects s @ map NewTooltip (el # pre)\<rparr>, ?r)"
          if "bootstrap s = lib" for s :: "'a state"
        proof -
          let ?s1 = "emit (NewTooltip el) s"
          from that Some ctor Inr have new: "new_Tooltip el s = (?s1, Inr c)"
            by (simp add: new_Tooltip_def)
          from that have "bootstrap ?s1 = lib" by (simp add: emit_def)
          with IH have "tooltip_map els ?s1 = (?s1\<lparr>effects := effects ?s1 @ map NewTooltip pre\<rparr>, r)"
            by blast
          with new show ?thesis
            by (simp add: emit_def split: sum.splits)
        qed
        moreover from IH have "prefix (el # pre) (el # els)" by simp
        moreover from IH have "\<forall>cs. ?r = Inr cs \<longrightarrow> el # pre = el # els"
          by (auto split: sum.splits)
        ultimately have "?P (el # els) (el # pre) ?r" by blast
        then show ?thesis by blast
      qed
    qed
  qed
qed

text \<open>
  One page load, for a fixed document and library: the final state is the initial one
  with a log of this shape, where \<open>pre\<close> and the result are the same for every path.
\<close>

lemma page_load_shape:
  "\<exists>pre r. prefix pre (marked_elements doc) \<and> (r = Inr () \<longrightarrow> pre = marked_elements doc) \<and>
     (\<forall>path. page_load path doc lib =
        (\<lparr>pathname = path, document = doc, bootstrap = lib,
          effects = GetPathname # (if path = ''/'' then [SetTimeout Reload 30000] else [])
                    @ QuerySelectorAll marker # map NewTooltip pre\<rparr>, r))"
proof -
  obtain pre r where pre: "prefix pre (marked_elements doc)"
    and full: "\<forall>cs. r = Inr cs \<longrightarrow> pre = marked_elements doc"
    and run: "\<forall>s :: 'a state. bootstrap s = lib \<longrightarrow>
        tooltip_map (marked_elements doc) s = (s\<lparr>effects := effects s @ map NewTooltip pre\<rparr>, r)"
    using tooltip_map_shape [of "marked_elements doc" lib] by blast
  let ?r = "case r of Inl f \<Rightarrow> Inl f | Inr cs \<Rightarrow> Inr ()"
  have "page_load path doc lib =
        (\<lparr>pathname = path, document = doc, bootstrap = lib,
          effects = GetPathname # (if path = ''/'' then [SetTimeout Reload 30000] else [])
                    @ QuerySelectorAll marker # map NewTooltip pre\<rparr>, ?r)" for path
  proof -
    let ?s0 = "\<lparr>pathname = path, document = doc, bootstrap = lib, effects = []\<rparr> :: 'a state"
    let ?s1 = "emit (QuerySelectorAll marker) (auto_refresh ?s0)"
    have "bootstrap ?s1 = lib"
      by (simp add: emit_def auto_refresh_def Let_def)
    with run have "tooltip_map (marked_elements doc) ?s1 =
        (?s1\<lparr>effects := effects ?s1 @ map NewTooltip pre\<rparr>, r)"
      by blast
    moreover have "querySelectorAll (document ?s1) marker = marked_elements doc"
      by (simp add: emit_def auto_refresh_def Let_def querySelectorAll_def marked_elements_def)
    ultimately have "tooltip_init (auto_refresh ?s0) =
        (?s1\<lparr>effects := effects ?s1 @ map NewTooltip pre\<rparr>, r)"
      by (simp add: tooltip_init_def Let_def)
    then show ?thesis
      by (simp add: page_load_def onDOMContentLoaded_def emit_def auto_refresh_def Let_def
               split: sum.splits)
  qed
  moreover from full have "?r = Inr () \<longrightarrow> pre = marked_elements doc"
    by (auto split: sum.splits)
  ultimately show ?thesis using pre by blast
qed

lemma page_load_scheduled:
  "scheduled (effects (fst (page_load path doc lib))) =
     (if path = ''/'' then [(30000, Reload)] else [])"
proof -
  obtain pre r where "page_load path doc lib =
        (\<lparr>pathname = path, document = doc, bootstrap = lib,
          effects = GetPathname # (if path = ''/'' then [SetTimeout Reload 30000] else [])
                    @ QuerySelectorAll marker # map NewTooltip pre\<rparr>, r)"
    using page_load_shape [of doc lib] by blast
  then show ?thesis
    using scheduled_NewTooltip [of pre] by (simp add: scheduled_def)
qed

lemma page_load_constructed:
  "\<exists>pre r. prefix pre (marked_elements doc) \<and> (r = Inr () \<longrightarrow> pre = marked_elements doc) \<and>
     (\<forall>path. constructed (effects (fst (page_load path doc lib))) = pre \<and>
             snd (page_load path doc lib) = r)"
proof -
  obtain pre r where pre: "prefix pre (marked_elements doc)" "r = Inr () \<longrightarrow> pre = marked_elements doc"
    and run: "\<forall>path. page_load path doc lib =
        (\<lparr>pathname = path, document = doc, bootstrap = lib,
          effects = GetPathname # (if path = ''/'' then [SetTimeout Reload 30000] else [])
                    @ QuerySelectorAll marker # map NewTooltip pre\<rparr>, r)"
    using page_load_shape [of doc lib] by blast
  have "constructed (effects (fst (page_load path doc lib))) = pre \<and>
        snd (page_load path doc lib) = r" for path
    using run constructed_NewTooltip [of pre] by (simp add: constructed_def)
  with pre show ?thesis by blast
qed

text \<open>The library is consulted only inside the callback, so an empty array never faults.\<close>

lemma page_load_unmarked:
  "marked_elements doc = [] \<Longrightarrow>
     page_load path doc lib =
       (\<lparr>pathname = path, document = doc, bootstrap = lib,
         effects = GetPathname # (if path = ''/'' then [SetTimeout Reload 30000] else [])
                   @ [QuerySelectorAll marker]\<rparr>, Inr ())"
  by (simp add: page_load_def onDOMContentLoaded_def tooltip_init_def emit_def auto_refresh_def
        Let_def querySelectorAll_def marked_elements_def)

lemma page_load_no_constructor:
  assumes "marked_elements doc \<noteq> []" and "lib = None \<or> lib = Some (Library None)"
  shows "page_load path doc lib =
       (\<lparr>pathname = path, document = doc, bootstrap = lib,
         effects = GetPathname # (if path = ''/'' then [SetTimeout Reload 30000] else [])
                   @ [QuerySelectorAll marker]\<rparr>,
        Inl (if lib = None then ReferenceError else TypeError))"
proof -
  from assms(1) obtain el els where "marked_elements doc = el # els"
    by (cases "marked_elements doc") auto
  with assms(2) show ?thesis
    by (auto simp: page_load_def onDOMContentLoaded_def tooltip_init_def emit_def auto_refresh_def
        Let_def querySelectorAll_def marked_elements_def new_Tooltip_def)
qed

subsection \<open>The timers of a page load\<close>

lemma advance_bound:
  "reloads (advance dt l) + length (pending (advance dt l)) \<le> reloads l + length (pending l)"
proof -
  let ?t = "clock l + dt"
  let ?due = "filter (\<lambda>(d, a). d \<le> ?t) (pending l)"
  have "length (filter (\<lambda>(d, a). a = Reload) ?due) \<le> length ?due"
    by (rule length_filter_le)
  moreover have "length ?due + length (filter (\<lambda>(d, a). \<not> d \<le> ?t) (pending l)) = length (pending l)"
    using sum_length_filter_compl [of "\<lambda>(d, a). d \<le> ?t" "pending l"]
    by (simp add: case_prod_unfold)
  ultimately show ?thesis
    by (simp add: advance_def Let_def)
qed

lemma run_bound: "reloads (run dts l) \<le> reloads l + length (pending l)"
proof (induction dts arbitrary: l)
  case Nil
  show ?case by simp
next
  case (Cons dt dts)
  have "reloads (run (dt # dts) l) \<le> reloads (advance dt l) + length (pending (advance dt l))"
    using Cons.IH [of "advance dt l"] by simp
  also have "\<dots> \<le> reloads l + length (pending l)"
    by (rule advance_bound)
  finally show ?case .
qed

lemmas unfold_listener =
  page_load_def onDOMContentLoaded_def tooltip_init_def auto_refresh_def emit_def new_Tooltip_def
  querySelectorAll_def marked_elements_def unmarked_elements_def document_order_def marker_def
  constructed_def scheduled_def queries_def Let_def

lemmas unfold_samples =
  sample_document_def restyled_document_def plain_document_def stub_library_def no_library_def

lemma set_constructed_marked:
  "el \<in> set (constructed (effects (fst (page_load path doc lib)))) \<Longrightarrow> matches marker el"
proof -
  assume el: "el \<in> set (constructed (effects (fst (page_load path doc lib))))"
  obtain pre r where "prefix pre (marked_elements doc)"
    and "\<forall>path. constructed (effects (fst (page_load path doc lib))) = pre \<and>
             snd (page_load path doc lib) = r"
    using page_load_constructed [of doc lib] by blast
  with el have "el \<in> set (marked_elements doc)"
    using set_mono_prefix by fastforce
  then show ?thesis by (simp add: marked_elements_def)
qed

text \<open>When the listener ends normally: on the side of its inputs.\<close>

lemma tooltip_map_completes:
  "bootstrap s = Some (Library (Some ctor)) \<Longrightarrow> \<forall>el \<in> set els. \<exists>c. ctor el = Inr c \<Longrightarrow>
     \<exists>cs. snd (tooltip_map els s) = Inr cs"
proof (induction els arbitrary: s)
  case Nil
  show ?case by simp
next
  case (Cons el els)
  from Cons.prems obtain c where c: "ctor el = Inr c" by auto
  let ?s1 = "emit (NewTooltip el) s"
  from Cons.prems c have new: "new_Tooltip el s = (?s1, Inr c)"
    by (simp add: new_Tooltip_def)
  from Cons.prems have "bootstrap ?s1 = Some (Library (Some ctor))"
    by (simp add: emit_def)
  with Cons.IH [of ?s1] Cons.prems obtain cs where "snd (tooltip_map els ?s1) = Inr cs"
    by auto
  with new show ?case
    by (cases "tooltip_map els ?s1") simp
qed

lemma page_load_completes:
  assumes "lib = Some (Library (Some ctor))" and "\<forall>el \<in> set (marked_elements doc). \<exists>c. ctor el = Inr c"
  shows "snd (page_load path doc lib) = Inr ()"
proof -
  let ?s0 = "\<lparr>pathname = path, document = doc, bootstrap = lib, effects = []\<rparr> :: 'a state"
  let ?s1 = "emit (QuerySelectorAll marker) (auto_refresh ?s0)"
  from assms(1) have "bootstrap ?s1 = Some (Library (Some ctor))"
    by (simp add: emit_def auto_refresh_def Let_def)
  with assms(2) obtain cs where "snd (tooltip_map (marked_elements doc) ?s1) = Inr cs"
    using tooltip_map_completes [of ?s1 ctor "marked_elements doc"] by blast
  moreover have "querySelectorAll (document ?s1) marker = marked_elements doc"
    by (simp add: emit_def auto_refresh_def Let_def querySelectorAll_def marked_elements_def)
  ultimately show ?thesis
    by (cases "tooltip_map (marked_elements doc) ?s1")
       (simp add: page_load_def onDOMContentLoaded_def tooltip_init_def Let_def)
qed

text \<open>The timer of the root path does fire, once the delay has passed.\<close>

lemma run_idle: "pending l = [] \<Longrightarrow> reloads (run dts l) = reloads l"
proof (induction dts arbitrary: l)
  case Nil
  show ?case by simp
next
  case (Cons dt dts)
  then have "pending (advance dt l) = []" "reloads (advance dt l) = reloads l"
    by (simp_all add: advance_def)
  with Cons.IH [of "advance dt l"] show ?case by simp
qed

lemma run_one_shot:
  "pending l = [(d, Reload)] \<Longrightarrow> clock l < d \<Longrightarrow>
     reloads (run dts l) = reloads l + (if d \<le> clock l + sum_list dts then 1 else 0)"
proof (induction dts arbitrary: l)
  case Nil
  then show ?case by simp
next
  case (Cons dt dts)
  show ?case
  proof (cases "d \<le> clock l + dt")
    case True
    with Cons.prems have "pending (advance dt l) = []" "reloads (advance dt l) = reloads l + 1"
      by (simp_all add: advance_def)
    with run_idle [of "advance dt l" dts] True show ?thesis by simp
  next
    case False
    with Cons.prems have "pending (advance dt l) = [(d, Reload)]" "clock (advance dt l) < d"
      "reloads (advance dt l) = reloads l" "clock (advance dt l) = clock l + dt"
      by (simp_all add: advance_def)
    with Cons.IH [of "advance dt l"] show ?thesis by (simp add: add.assoc)
  qed
qed

lemma reload_fires:
  "reloads (run dts (start (effects (fst (page_load path doc lib))))) =
     (if path = ''/'' \<and> 30000 \<le> sum_list dts then 1 else 0)"
proof (cases "path = ''/''")
  case True
  let ?l = "start (effects (fst (page_load path doc lib)))"
  from True have "pending ?l = [(30000, Reload)]" "clock ?l < 30000" "reloads ?l = 0" "clock ?l = 0"
    by (simp_all add: start_def page_load_scheduled)
  with run_one_shot [of ?l 30000 dts] True show ?thesis by simp
next
  case False
  let ?l = "start (effects (fst (page_load path doc lib)))"
  from False have "pending ?l = []" "reloads ?l = 0"
    by (simp_all add: start_def page_load_scheduled)
  with run_idle [of ?l dts] False show ?thesis by simp
qed

lemma filter_related:
  "list_all2 R xs ys \<Longrightarrow> (\<And>x y. R x y \<Longrightarrow> P x = Q y \<and> f x = g y) \<Longrightarrow>
     map f (filter P xs) = map g (filter Q ys)"
  by (induction rule: list_all2_induct) auto

lemma same_marker_matches: "same_marker a b \<Longrightarrow> matches marker a = matches marker b \<and> nid a = nid b"
  by (simp add: same_marker_def marker_def)

lemma filter_list_all2:
  "list_all2 R xs ys \<Longrightarrow> (\<And>x y. R x y \<Longrightarrow> P x = Q y) \<Longrightarrow>
     list_all2 R (filter P xs) (filter Q ys)"
  by (induction rule: list_all2_induct) auto

text \<open>One turn of the loop, by what the constructor does on the first element.\<close>

lemma tooltip_map_returns:
  assumes "bootstrap s = Some (Library (Some ctor))" and "ctor el = Inr c"
    and "\<forall>s :: 'a state. bootstrap s = Some (Library (Some ctor)) \<longrightarrow>
           tooltip_map els s = (s\<lparr>effects := effects s @ map NewTooltip pre\<rparr>, r)"
  shows "tooltip_map (el # els) s =
     (s\<lparr>effects := effects s @ map NewTooltip (el # pre)\<rparr>,
      case r of Inl f \<Rightarrow> Inl f | Inr cs \<Rightarrow> Inr (c # cs))"
proof -
  let ?s1 = "emit (NewTooltip el) s"
  from assms(1,2) have new: "new_Tooltip el s = (?s1, Inr c)"
    by (simp add: new_Tooltip_def)
  from assms(1) have "bootstrap ?s1 = Some (Library (Some ctor))"
    by (simp add: emit_def)
  with assms(3) have "tooltip_map els ?s1 = (?s1\<lparr>effects := effects ?s1 @ map NewTooltip pre\<rparr>, r)"
    by blast
  with new show ?thesis
    by (simp add: emit_def split: sum.splits)
qed

text \<open>
  The loop on two arrays whose elements are pairwise the same elements, with one library
  whose constructor throws on both elements of a pair or on neither: the same elements
  are given to the constructor, and the loop ends in the same way.
\<close>

lemma tooltip_map_related:
  assumes "list_all2 (\<lambda>a b. nid a = nid b \<and>
             (\<forall>ctor. lib = Some (Library (Some ctor)) \<longrightarrow> isl (ctor a) = isl (ctor b))) xs ys"
  shows "\<exists>pre pre' r r'. map nid pre = map nid pre' \<and> isl r = isl r' \<and>
     (\<forall>s. bootstrap s = lib \<longrightarrow>
        tooltip_map xs s = (s\<lparr>effects := effects s @ map NewTooltip pre\<rparr>, r)) \<and>
     (\<forall>s. bootstrap s = lib \<longrightarrow>
        tooltip_map ys s = (s\<lparr>effects := effects s @ map NewTooltip pre'\<rparr>, r'))"
  (is "\<exists>pre pre' r r'. ?P xs ys pre pre' r r'")
  using assms
proof (induction rule: list_all2_induct)
  case Nil
  have "?P [] [] [] [] (Inr []) (Inr [])" by simp
  then show ?case by blast
next
  case (Cons x xs y ys)
  then obtain pre pre' r r' where IH: "?P xs ys pre pre' r r'" by blast
  from Cons have same: "nid x = nid y" by simp
  show ?case
  proof (cases lib)
    case None
    then have "?P (x # xs) (y # ys) [] [] (Inl ReferenceError) (Inl ReferenceError)"
      by (simp add: new_Tooltip_def)
    then show ?thesis by blast
  next
    case (Some l)
    show ?thesis
    proof (cases "Tooltip l")
      case None
      with Some have "?P (x # xs) (y # ys) [] [] (Inl TypeError) (Inl TypeError)"
        by (simp add: new_Tooltip_def)
      then show ?thesis by blast
    next
      case ctor: (Some ctor)
      with Some have lib: "lib = Some (Library (Some ctor))"
        by (cases l) simp
      with Cons have throws: "isl (ctor x) = isl (ctor y)" by blast
      show ?thesis
      proof (cases "ctor x")
        case (Inl f)
        with throws obtain f' where f': "ctor y = Inl f'"
          by (cases "ctor y") auto
        from lib Inl f' same have "?P (x # xs) (y # ys) [x] [y] (Inl f) (Inl f')"
          by (simp add: new_Tooltip_def emit_def)
        then show ?thesis by blast
      next
        case (Inr c)
        with throws obtain c' where c': "ctor y = Inr c'"
          by (cases "ctor y") auto
        let ?r = "case r of Inl f \<Rightarrow> Inl f | Inr cs \<Rightarrow> Inr (c # cs)"
        let ?r' = "case r' of Inl f \<Rightarrow> Inl f | Inr cs \<Rightarrow> Inr (c' # cs)"
        have one: "tooltip_map (x # xs) s =
            (s\<lparr>effects := effects s @ map NewTooltip (x # pre)\<rparr>, ?r)"
          if "bootstrap s = lib" for s :: "'a state"
        proof -
          from that lib have here: "bootstrap s = Some (Library (Some ctor))" by simp
          from IH lib have rest: "\<forall>s :: 'a state. bootstrap s = Some (Library (Some ctor)) \<longrightarrow>
              tooltip_map xs s = (s\<lparr>effects := effects s @ map NewTooltip pre\<rparr>, r)"
            by simp
          from here Inr rest show ?thesis by (rule tooltip_map_returns)
        qed
        have two: "tooltip_map (y # ys) s =
            (s\<lparr>effects := effects s @ map NewTooltip (y # pre')\<rparr>, ?r')"
          if "bootstrap s = lib" for s :: "'a state"
        proof -
          from that lib have here: "bootstrap s = Some (Library (Some ctor))" by simp
          from IH lib have rest: "\<forall>s :: 'a state. bootstrap s = Some (Library (Some ctor)) \<longrightarrow>
              tooltip_map ys s = (s\<lparr>effects := effects s @ map NewTooltip pre'\<rparr>, r')"
            by simp
          from here c' rest show ?thesis by (rule tooltip_map_returns)
        qed
        from IH same have ids: "map nid (x # pre) = map nid (y # pre')" by simp
        from IH have "isl r = isl r'" by simp
        then have ends: "isl ?r = isl ?r'"
          by (cases r; cases r') simp_all
        from ids ends one two have "?P (x # xs) (y # ys) (x # pre) (y # pre') ?r ?r'"
          by simp
        then show ?thesis by blast
      qed
    qed
  qed
qed

text \<open>A page load in terms of what the loop does on the marked elements.\<close>

lemma page_load_via_loop:
  assumes "\<forall>s :: 'a state. bootstrap s = lib \<longrightarrow>
        tooltip_map (marked_elements doc) s = (s\<lparr>effects := effects s @ map NewTooltip pre\<rparr>, r)"
  shows "constructed (effects (fst (page_load path doc lib))) = pre \<and>
     snd (page_load path doc lib) = (case r of Inl f \<Rightarrow> Inl f | Inr cs \<Rightarrow> Inr ())"
proof -
  let ?s0 = "\<lparr>pathname = path, document = doc, bootstrap = lib, effects = []\<rparr> :: 'a state"
  let ?s1 = "emit (QuerySelectorAll marker) (auto_refresh ?s0)"
  have "bootstrap ?s1 = lib"
    by (simp add: emit_def auto_refresh_def Let_def)
  with assms have "tooltip_map (marked_elements doc) ?s1 =
      (?s1\<lparr>effects := effects ?s1 @ map NewTooltip pre\<rparr>, r)"
    by blast
  moreover have "querySelectorAll (document ?s1) marker = marked_elements doc"
    by (simp add: emit_def auto_refresh_def Let_def querySelectorAll_def marked_elements_def)
  ultimately have "tooltip_init (auto_refresh ?s0) =
      (?s1\<lparr>effects := effects ?s1 @ map NewTooltip pre\<rparr>, r)"
    by (simp add: tooltip_init_def Let_def)
  then have load: "page_load path doc lib =
      (?s1\<lparr>effects := effects ?s1 @ map NewTooltip pre\<rparr>,
       case r of Inl f \<Rightarrow> Inl f | Inr cs \<Rightarrow> Inr ())"
    by (simp add: page_load_def onDOMContentLoaded_def split: sum.splits)
  have "constructed (effects ?s1) = []"
    by (simp add: emit_def auto_refresh_def Let_def constructed_def)
  then have "constructed (effects ?s1 @ map NewTooltip pre) = pre"
    by (simp only: constructed_append constructed_NewTooltip append_Nil)
  with load show ?thesis by simp
qed

text \<open>
  Two documents with the same elements in the same order that agree, element by element,
  on \<^verbatim>\<open>data-bs-toggle\<close>, and a constructor that throws on both elements of such a pair or
  on neither: the listener gives the same elements to the constructor and ends in the
  same way, whatever the other attributes are.
\<close>

lemma page_load_related:
  assumes docs: "list_all2 same_marker (document_order doc) (document_order doc')"
    and ctor: "\<forall>ctor a b. lib = Some (Library (Some ctor)) \<and> same_marker a b \<longrightarrow>
                 isl (ctor a) = isl (ctor b)"
  shows "map nid (constructed (effects (fst (page_load path doc lib)))) =
           map nid (constructed (effects (fst (page_load path doc' lib)))) \<and>
         isl (snd (page_load path doc lib)) = isl (snd (page_load path doc' lib))"
proof -
  let ?R = "\<lambda>a b. nid a = nid b \<and>
             (\<forall>ctor. lib = Some (Library (Some ctor)) \<longrightarrow> isl (ctor a) = isl (ctor b))"
  from docs have "list_all2 same_marker (marked_elements doc) (marked_elements doc')"
    unfolding marked_elements_def
    by (rule filter_list_all2) (simp add: same_marker_matches)
  moreover have "?R a b" if pair: "same_marker a b" for a b
  proof (intro conjI allI impI)
    from pair show "nid a = nid b" by (simp add: same_marker_def)
  next
    fix c
    assume "lib = Some (Library (Some c))"
    with pair have "lib = Some (Library (Some c)) \<and> same_marker a b" by simp
    with ctor [rule_format, of c a b] show "isl (c a) = isl (c b)" .
  qed
  ultimately have "list_all2 ?R (marked_elements doc) (marked_elements doc')"
    by (rule list_all2_mono)
  then obtain pre pre' r r' where ids: "map nid pre = map nid pre'" and ends: "isl r = isl r'"
    and one: "\<forall>s :: 'a state. bootstrap s = lib \<longrightarrow>
        tooltip_map (marked_elements doc) s = (s\<lparr>effects := effects s @ map NewTooltip pre\<rparr>, r)"
    and two: "\<forall>s :: 'a state. bootstrap s = lib \<longrightarrow>
        tooltip_map (marked_elements doc') s = (s\<lparr>effects := effects s @ map NewTooltip pre'\<rparr>, r')"
    using tooltip_map_related [of lib "marked_elements doc" "marked_elements doc'"] by blast
  have "constructed (effects (fst (page_load path doc lib))) = pre"
    and "constructed (effects (fst (page_load path doc' lib))) = pre'"
    using page_load_via_loop [OF one, of path] page_load_via_loop [OF two, of path] by simp_all
  with ids have calls: "map nid (constructed (effects (fst (page_load path doc lib)))) =
      map nid (constructed (effects (fst (page_load path doc' lib))))"
    by simp
  have "isl (snd (page_load path doc lib)) = isl r"
    using page_load_via_loop [OF one, of path] by (cases r) simp_all
  moreover have "isl (snd (page_load path doc' lib)) = isl r'"
    using page_load_via_loop [OF two, of path] by (cases r') simp_all
  ultimately have "isl (snd (page_load path doc lib)) = isl (snd (page_load path doc' lib))"
    using ends by simp
  with calls show ?thesis by simp
qed

subsection \<open>Auto-refresh\<close>

text \<open>
  C1. On every page load a reload is scheduled if and only if the path is exactly \<open>/\<close>,
  and then with a delay of exactly 30000 milliseconds; on any other path the listener
  arms no timer. This holds for every document and library, also when the tooltip part
  ends with an exception.
\<close>

theorem reload_scheduled_iff_root:
  "scheduled (effects (fst (page_load path doc lib))) =
     (if path = ''/'' then [(30000, Reload)] else []) \<and>
   ((d, Reload) \<in> set (scheduled (effects (fst (page_load path doc lib)))) \<longleftrightarrow>
      path = ''/'' \<and> d = 30000)"
  by (auto simp: page_load_scheduled)

theorem reload_scheduled_iff_root_witness:
  "scheduled (effects (fst (page_load ''/'' sample_document stub_library))) = [(30000, Reload)] \<and>
   scheduled (effects (fst (page_load ''/scan'' sample_document stub_library))) = [] \<and>
   scheduled (effects (fst (page_load ''/results/1'' sample_document no_library))) = []"
  using reload_scheduled_iff_root [of "''/''" sample_document stub_library 30000]
        reload_scheduled_iff_root [of "''/scan''" sample_document stub_library 30000]
        reload_scheduled_iff_root [of "''/results/1''" sample_document no_library 30000]
  by simp

text \<open>
  C2. The reload fires at most once per page load: the listener arms at most one timer,
  with \<^verbatim>\<open>setTimeout\<close>, and however time passes afterwards the callback runs at most once.
\<close>

theorem reload_at_most_once:
  "length (scheduled (effects (fst (page_load path doc lib)))) \<le> 1 \<and>
   reloads (run dts (start (effects (fst (page_load path doc lib))))) \<le> 1"
proof -
  let ?es = "effects (fst (page_load path doc lib))"
  have one: "length (scheduled ?es) \<le> 1"
    by (simp add: page_load_scheduled)
  have "reloads (run dts (start ?es)) \<le> reloads (start ?es) + length (pending (start ?es))"
    by (rule run_bound)
  with one show ?thesis by (simp add: start_def)
qed

theorem reload_at_most_once_witness:
  "length (scheduled (effects (fst (page_load ''/'' sample_document stub_library)))) \<le> 1 \<and>
   reloads (run [10000, 20000, 30000, 30000]
     (start (effects (fst (page_load ''/'' sample_document stub_library))))) \<le> 1"
  using reload_at_most_once [of "''/''" sample_document stub_library "[10000, 20000, 30000, 30000]"]
  by simp

subsection \<open>Tooltip initialisation\<close>

text \<open>
  C3, as stated: on every document the listener performs exactly as many constructor
  calls as there are marked elements. It does not when the library is not loaded: the
  sample page has three marked elements and no constructor call is made.
\<close>

theorem construction_count_counterexample:
  "length (constructed (effects (fst (page_load ''/scan'' sample_document no_library)))) \<noteq>
     length (marked_elements sample_document) \<and>
   length (constructed (effects (fst (page_load ''/scan'' sample_document no_library)))) = 0 \<and>
   length (marked_elements sample_document) = 3 \<and>
   snd (page_load ''/scan'' sample_document no_library) = Inl ReferenceError"
  by (simp add: unfold_listener unfold_samples)

text \<open>
  C3, amended: on every document with N marked and M unmarked elements, a listener that
  ends without a fault has performed exactly N constructor calls, one per marked
  element, each with that element as its one argument, in the order of the array. No
  unmarked element is ever given to the constructor, whether the listener ends normally
  or not. The listener does end without a fault whenever \<^verbatim>\<open>bootstrap.Tooltip\<close> is defined
  and throws on no marked element.
\<close>

theorem construction_per_marked_element:
  "(snd (page_load path doc lib) = Inr () \<longrightarrow>
      constructed (effects (fst (page_load path doc lib))) = marked_elements doc \<and>
      length (constructed (effects (fst (page_load path doc lib)))) = length (marked_elements doc)) \<and>
   (lib = Some (Library (Some ctor)) \<and> (\<forall>el \<in> set (marked_elements doc). \<exists>c. ctor el = Inr c) \<longrightarrow>
      snd (page_load path doc lib) = Inr ()) \<and>
   (\<forall>el \<in> set (unmarked_elements doc). el \<notin> set (constructed (effects (fst (page_load path doc lib))))) \<and>
   length (marked_elements doc) + length (unmarked_elements doc) = length (document_order doc)"
proof -
  let ?calls = "constructed (effects (fst (page_load path doc lib)))"
  obtain pre r where "r = Inr () \<longrightarrow> pre = marked_elements doc"
    and "\<forall>path. constructed (effects (fst (page_load path doc lib))) = pre \<and>
             snd (page_load path doc lib) = r"
    using page_load_constructed [of doc lib] by blast
  then have "snd (page_load path doc lib) = Inr () \<longrightarrow> ?calls = marked_elements doc"
    by auto
  moreover have "\<forall>el \<in> set (unmarked_elements doc). el \<notin> set ?calls"
    using set_constructed_marked [of _ path doc lib] by (auto simp: unmarked_elements_def)
  moreover have "length (marked_elements doc) + length (unmarked_elements doc) = length (document_order doc)"
    by (simp add: marked_elements_def unmarked_elements_def sum_length_filter_compl)
  moreover have "lib = Some (Library (Some ctor)) \<and>
      (\<forall>el \<in> set (marked_elements doc). \<exists>c. ctor el = Inr c) \<longrightarrow>
      snd (page_load path doc lib) = Inr ()"
    using page_load_completes [of lib ctor doc path] by blast
  ultimately show ?thesis by simp
qed

theorem construction_per_marked_element_witness:
  "stub_library = Some (Library (Some (\<lambda>el. Inr (nid el)))) \<and>
   snd (page_load ''/'' sample_document stub_library) = Inr () \<and>
   constructed (effects (fst (page_load ''/'' sample_document stub_library))) =
     marked_elements sample_document \<and>
   map nid (marked_elements sample_document) = [2, 4, 6] \<and>
   map nid (unmarked_elements sample_document) = [0, 1, 3, 5] \<and>
   length (constructed (effects (fst (page_load ''/'' sample_document stub_library)))) = 3 \<and>
   Element 5 ''p'' [] [Text ''hosts''] \<in> set (unmarked_elements sample_document) \<and>
   Element 5 ''p'' [] [Text ''hosts''] \<notin>
     set (constructed (effects (fst (page_load ''/'' sample_document stub_library))))"
proof -
  have stub: "stub_library = Some (Library (Some (\<lambda>el. Inr (nid el))))"
    by (simp add: stub_library_def)
  have ids: "map nid (marked_elements sample_document) = [2, 4, 6]"
    "map nid (unmarked_elements sample_document) = [0, 1, 3, 5]"
    "length (marked_elements sample_document) = 3"
    by (simp_all add: unfold_listener unfold_samples)
  have p: "Element 5 ''p'' [] [Text ''hosts''] \<in> set (unmarked_elements sample_document)"
    by (simp add: unfold_listener unfold_samples)
  note this_page =
    construction_per_marked_element [of "''/''" sample_document stub_library "\<lambda>el. Inr (nid el)"]
  from this_page stub
  have ok: "snd (page_load ''/'' sample_document stub_library) = Inr ()"
    by blast
  with this_page
  have calls: "constructed (effects (fst (page_load ''/'' sample_document stub_library))) =
      marked_elements sample_document"
    by blast
  from this_page p
  have other: "Element 5 ''p'' [] [Text ''hosts''] \<notin>
      set (constructed (effects (fst (page_load ''/'' sample_document stub_library))))"
    by blast
  from calls ids
  have "length (constructed (effects (fst (page_load ''/'' sample_document stub_library)))) = 3"
    by simp
  with stub ok calls ids(1,2) p other show ?thesis by blast
qed

text \<open>
  C4. The constructor calls follow document order. The calls made are always an initial
  segment of the marked elements in document order, so the i-th call receives the i-th
  marked element and the elements constructed appear in the order of the document. When
  the listener ends without a fault, as it does whenever \<^verbatim>\<open>bootstrap.Tooltip\<close> is defined
  and throws on no marked element, the sequence of calls is the whole sequence of marked
  elements in document order.
\<close>

theorem construction_in_document_order:
  "prefix (constructed (effects (fst (page_load path doc lib)))) (marked_elements doc) \<and>
   (\<forall>i < length (constructed (effects (fst (page_load path doc lib)))).
      constructed (effects (fst (page_load path doc lib))) ! i = marked_elements doc ! i) \<and>
   subseq (constructed (effects (fst (page_load path doc lib)))) (document_order doc) \<and>
   (snd (page_load path doc lib) = Inr () \<longrightarrow>
      constructed (effects (fst (page_load path doc lib))) = marked_elements doc) \<and>
   (lib = Some (Library (Some ctor)) \<and> (\<forall>el \<in> set (marked_elements doc). \<exists>c. ctor el = Inr c) \<longrightarrow>
      constructed (effects (fst (page_load path doc lib))) = marked_elements doc)"
proof -
  let ?calls = "constructed (effects (fst (page_load path doc lib)))"
  obtain pre r where "prefix pre (marked_elements doc)"
    and full: "r = Inr () \<longrightarrow> pre = marked_elements doc"
    and run: "\<forall>path. constructed (effects (fst (page_load path doc lib))) = pre \<and>
             snd (page_load path doc lib) = r"
    using page_load_constructed [of doc lib] by blast
  then have pre: "prefix ?calls (marked_elements doc)" by simp
  then obtain rest where rest: "marked_elements doc = ?calls @ rest"
    by (auto simp: prefix_def)
  have "\<forall>i < length ?calls. ?calls ! i = (?calls @ rest) ! i"
    by (simp add: nth_append)
  with rest have nth: "\<forall>i < length ?calls. ?calls ! i = marked_elements doc ! i"
    by simp
  have "subseq (marked_elements doc) (document_order doc)"
    by (simp add: marked_elements_def)
  with pre have sub: "subseq ?calls (document_order doc)"
    using prefix_imp_subseq subseq_order.order_trans by blast
  from full run have normal: "snd (page_load path doc lib) = Inr () \<longrightarrow> ?calls = marked_elements doc"
    by auto
  then have "lib = Some (Library (Some ctor)) \<and>
      (\<forall>el \<in> set (marked_elements doc). \<exists>c. ctor el = Inr c) \<longrightarrow> ?calls = marked_elements doc"
    using page_load_completes [of lib ctor doc path] by blast
  with pre nth sub normal show ?thesis by blast
qed

theorem construction_in_document_order_witness:
  "stub_library = Some (Library (Some (\<lambda>el. Inr (nid el)))) \<and>
   map nid (document_order sample_document) = [0, 1, 2, 3, 4, 5, 6] \<and>
   map nid (marked_elements sample_document) = [2, 4, 6] \<and>
   constructed (effects (fst (page_load ''/scan'' sample_document stub_library))) =
     marked_elements sample_document \<and>
   constructed (effects (fst (page_load ''/scan'' sample_document stub_library))) ! 0 =
     marked_elements sample_document ! 0 \<and>
   constructed (effects (fst (page_load ''/scan'' sample_document stub_library))) ! 1 =
     marked_elements sample_document ! 1 \<and>
   constructed (effects (fst (page_load ''/scan'' sample_document stub_library))) ! 2 =
     marked_elements sample_document ! 2"
proof -
  let ?calls = "constructed (effects (fst (page_load ''/scan'' sample_document stub_library)))"
  have stub: "stub_library = Some (Library (Some (\<lambda>el. Inr (nid el))))"
    by (simp add: stub_library_def)
  have ids: "map nid (document_order sample_document) = [0, 1, 2, 3, 4, 5, 6]"
    "map nid (marked_elements sample_document) = [2, 4, 6]"
    by (simp_all add: unfold_listener unfold_samples)
  note this_page =
    construction_in_document_order [of "''/scan''" sample_document stub_library "\<lambda>el. Inr (nid el)"]
  from this_page stub have calls: "?calls = marked_elements sample_document"
    by blast
  have "length (map nid (marked_elements sample_document)) = 3"
    by (simp only: ids) simp
  with calls have "0 < length ?calls" "1 < length ?calls" "2 < length ?calls"
    by simp_all
  with this_page
  have "?calls ! 0 = marked_elements sample_document ! 0"
    "?calls ! 1 = marked_elements sample_document ! 1"
    "?calls ! 2 = marked_elements sample_document ! 2"
    by blast+
  with stub ids calls show ?thesis by blast
qed

text \<open>
  C5. When no element carries the marker, no constructor call is made and the listener
  ends without a fault, whatever the library is, also when it is not loaded.
\<close>

theorem no_marked_element_no_fault:
  "marked_elements doc = [] \<Longrightarrow>
     constructed (effects (fst (page_load path doc lib))) = [] \<and>
     snd (page_load path doc lib) = Inr ()"
  by (simp add: page_load_unmarked constructed_def)

theorem no_marked_element_no_fault_witness:
  "marked_elements plain_document = [] \<and>
   constructed (effects (fst (page_load ''/'' plain_document no_library))) = [] \<and>
   snd (page_load ''/'' plain_document no_library) = Inr ()"
proof -
  have none: "marked_elements plain_document = []"
    by (simp add: unfold_listener unfold_samples)
  show ?thesis
    using none no_marked_element_no_fault [OF none, of "''/''" no_library] by simp
qed

text \<open>
  C6. When the constructor is absent (the global \<^verbatim>\<open>bootstrap\<close> is not declared, or it has
  no \<^verbatim>\<open>Tooltip\<close>) and at least one element is marked, the listener ends with a fault at
  the first element: it is not caught, no constructor call is made for any element, and
  the fault is the listener's result.
\<close>

theorem missing_constructor_faults:
  "marked_elements doc \<noteq> [] \<Longrightarrow> lib = None \<or> lib = Some (Library None) \<Longrightarrow>
     snd (page_load path doc lib) = Inl (if lib = None then ReferenceError else TypeError) \<and>
     constructed (effects (fst (page_load path doc lib))) = []"
  by (simp add: page_load_no_constructor constructed_def)

theorem missing_constructor_faults_witness:
  "marked_elements sample_document \<noteq> [] \<and>
   snd (page_load ''/'' sample_document no_library) = Inl ReferenceError \<and>
   constructed (effects (fst (page_load ''/'' sample_document no_library))) = [] \<and>
   snd (page_load ''/'' sample_document (Some (Library None) :: nat library option)) = Inl TypeError"
proof -
  have some: "marked_elements sample_document \<noteq> []"
    by (simp add: unfold_listener unfold_samples)
  have "no_library = None" by (simp add: no_library_def)
  then show ?thesis
    using some missing_constructor_faults [OF some, of no_library "''/''"]
      missing_constructor_faults [OF some, of "Some (Library None) :: nat library option" "''/''"]
    by simp
qed

text \<open>
  C7. The listener writes nothing to the document: the document after the listener is
  the document before it, for every path and library (what the constructor of the
  library does to its element is outside the script). Its only query of the document
  is the one with the selector \<^verbatim>\<open>[data-bs-toggle="tooltip"]\<close>, and it reads no attribute
  other than \<^verbatim>\<open>data-bs-toggle\<close>: on two documents with the same elements in the same
  order that agree, element by element, on this attribute, the query selects the same
  elements, and the listener gives the same elements to the constructor and ends in the
  same way, provided the constructor itself throws on both elements of such a pair or on
  neither; and whenever the listener ends without a fault on both documents, it has
  given the same elements to the constructor, whatever the library is.
\<close>

theorem listener_frame_condition:
  "document (fst (page_load path doc lib)) = doc \<and>
   queries (effects (fst (page_load path doc lib))) = [AttrEquals ''data-bs-toggle'' ''tooltip''] \<and>
   (list_all2 same_marker (document_order doc) (document_order doc') \<longrightarrow>
      map nid (querySelectorAll doc marker) = map nid (querySelectorAll doc' marker)) \<and>
   (list_all2 same_marker (document_order doc) (document_order doc') \<and>
    (\<forall>ctor a b. lib = Some (Library (Some ctor)) \<and> same_marker a b \<longrightarrow>
        isl (ctor a) = isl (ctor b)) \<longrightarrow>
      map nid (constructed (effects (fst (page_load path doc lib)))) =
        map nid (constructed (effects (fst (page_load path doc' lib)))) \<and>
      isl (snd (page_load path doc lib)) = isl (snd (page_load path doc' lib))) \<and>
   (list_all2 same_marker (document_order doc) (document_order doc') \<and>
    snd (page_load path doc lib) = Inr () \<and> snd (page_load path doc' lib) = Inr () \<longrightarrow>
      map nid (constructed (effects (fst (page_load path doc lib)))) =
        map nid (constructed (effects (fst (page_load path doc' lib)))))"
proof -
  obtain pre r where shape: "page_load path doc lib =
        (\<lparr>pathname = path, document = doc, bootstrap = lib,
          effects = GetPathname # (if path = ''/'' then [SetTimeout Reload 30000] else [])
                    @ QuerySelectorAll marker # map NewTooltip pre\<rparr>, r)"
    using page_load_shape [of doc lib] by blast
  have "queries (map NewTooltip pre) = []"
    by (induction pre) (simp_all add: queries_def)
  with shape have asked: "queries (effects (fst (page_load path doc lib))) =
      [AttrEquals ''data-bs-toggle'' ''tooltip'']"
    by (simp add: queries_def marker_def)
  from shape have kept: "document (fst (page_load path doc lib)) = doc"
    by simp
  have selected: "map nid (marked_elements doc) = map nid (marked_elements doc')"
    if "list_all2 same_marker (document_order doc) (document_order doc')"
    unfolding marked_elements_def
    using that same_marker_matches by (rule filter_related)
  then have query: "list_all2 same_marker (document_order doc) (document_order doc') \<longrightarrow>
      map nid (querySelectorAll doc marker) = map nid (querySelectorAll doc' marker)"
    by (simp add: querySelectorAll_def marked_elements_def)
  have calls: "list_all2 same_marker (document_order doc) (document_order doc') \<and>
    (\<forall>ctor a b. lib = Some (Library (Some ctor)) \<and> same_marker a b \<longrightarrow>
        isl (ctor a) = isl (ctor b)) \<longrightarrow>
      map nid (constructed (effects (fst (page_load path doc lib)))) =
        map nid (constructed (effects (fst (page_load path doc' lib)))) \<and>
      isl (snd (page_load path doc lib)) = isl (snd (page_load path doc' lib))"
  proof
    assume both: "list_all2 same_marker (document_order doc) (document_order doc') \<and>
      (\<forall>ctor a b. lib = Some (Library (Some ctor)) \<and> same_marker a b \<longrightarrow>
        isl (ctor a) = isl (ctor b))"
    then have docs: "list_all2 same_marker (document_order doc) (document_order doc')"
      and ctor: "\<forall>ctor a b. lib = Some (Library (Some ctor)) \<and> same_marker a b \<longrightarrow>
        isl (ctor a) = isl (ctor b)"
      by (rule conjunct1, rule conjunct2)
    from docs ctor show "map nid (constructed (effects (fst (page_load path doc lib)))) =
        map nid (constructed (effects (fst (page_load path doc' lib)))) \<and>
      isl (snd (page_load path doc lib)) = isl (snd (page_load path doc' lib))"
      by (rule page_load_related)
  qed
  have normal: "list_all2 same_marker (document_order doc) (document_order doc') \<and>
    snd (page_load path doc lib) = Inr () \<and> snd (page_load path doc' lib) = Inr () \<longrightarrow>
      map nid (constructed (effects (fst (page_load path doc lib)))) =
        map nid (constructed (effects (fst (page_load path doc' lib))))"
  proof
    assume all: "list_all2 same_marker (document_order doc) (document_order doc') \<and>
      snd (page_load path doc lib) = Inr () \<and> snd (page_load path doc' lib) = Inr ()"
    obtain p1 r1 where "r1 = Inr () \<longrightarrow> p1 = marked_elements doc"
      and "\<forall>path. constructed (effects (fst (page_load path doc lib))) = p1 \<and>
             snd (page_load path doc lib) = r1"
      using page_load_constructed [of doc lib] by blast
    with all have one: "constructed (effects (fst (page_load path doc lib))) = marked_elements doc"
      by auto
    obtain p2 r2 where "r2 = Inr () \<longrightarrow> p2 = marked_elements doc'"
      and "\<forall>path. constructed (effects (fst (page_load path doc' lib))) = p2 \<and>
             snd (page_load path doc' lib) = r2"
      using page_load_constructed [of doc' lib] by blast
    with all have two: "constructed (effects (fst (page_load path doc' lib))) = marked_elements doc'"
      by auto
    from all selected have "map nid (marked_elements doc) = map nid (marked_elements doc')"
      by simp
    with one two show "map nid (constructed (effects (fst (page_load path doc lib)))) =
        map nid (constructed (effects (fst (page_load path doc' lib))))"
      by simp
  qed
  from kept asked query calls normal show ?thesis by (intro conjI)
qed

theorem listener_frame_condition_witness:
  "stub_library = Some (Library (Some (\<lambda>el. Inr (nid el)))) \<and>
   document (fst (page_load ''/'' sample_document stub_library)) = sample_document \<and>
   queries (effects (fst (page_load ''/'' sample_document stub_library))) =
     [AttrEquals ''data-bs-toggle'' ''tooltip''] \<and>
   list_all2 same_marker (document_order sample_document) (document_order restyled_document) \<and>
   sample_document \<noteq> restyled_document \<and>
   map nid (querySelectorAll sample_document marker) =
     map nid (querySelectorAll restyled_document marker) \<and>
   map nid (constructed (effects (fst (page_load ''/'' sample_document stub_library)))) =
     map nid (constructed (effects (fst (page_load ''/'' restyled_document stub_library)))) \<and>
   map nid (constructed (effects (fst (page_load ''/'' sample_document stub_library)))) = [2, 4, 6]"
proof -
  have stub: "stub_library = Some (Library (Some (\<lambda>el. Inr (nid el))))"
    by (simp add: stub_library_def)
  have same: "list_all2 same_marker (document_order sample_document) (document_order restyled_document)"
    by (simp add: unfold_listener unfold_samples same_marker_def)
  have differ: "sample_document \<noteq> restyled_document"
    by (simp add: unfold_samples)
  have ids: "map nid (constructed (effects (fst (page_load ''/'' sample_document stub_library)))) = [2, 4, 6]"
    by (simp add: unfold_listener unfold_samples)
  have quiet: "\<forall>ctor a b. stub_library = Some (Library (Some ctor)) \<and> same_marker a b \<longrightarrow>
      isl (ctor a) = isl (ctor b)"
    by (auto simp: stub_library_def)
  note this_page =
    listener_frame_condition [of "''/''" sample_document stub_library restyled_document]
  from this_page have kept: "document (fst (page_load ''/'' sample_document stub_library)) = sample_document"
    by (rule conjunct1)
  from this_page have asked: "queries (effects (fst (page_load ''/'' sample_document stub_library))) =
     [AttrEquals ''data-bs-toggle'' ''tooltip'']"
    by (rule conjunct2 [THEN conjunct1])
  from this_page same have query: "map nid (querySelectorAll sample_document marker) =
     map nid (querySelectorAll restyled_document marker)"
    by (simp only: simp_thms)
  from this_page same quiet
  have calls: "map nid (constructed (effects (fst (page_load ''/'' sample_document stub_library)))) =
     map nid (constructed (effects (fst (page_load ''/'' restyled_document stub_library))))"
    by (simp only: simp_thms)
  from stub kept asked same differ query calls ids show ?thesis
    by (intro conjI)
qed

subsection \<open>The two parts together\<close>

text \<open>
  C8. The two parts share no data. On one document and library, the constructor calls
  and the way the listener ends are the same for any two paths; for one path, the
  timers armed are the same for any two documents and libraries.
\<close>

theorem behaviours_independent:
  "constructed (effects (fst (page_load path1 doc lib))) =
     constructed (effects (fst (page_load path2 doc lib))) \<and>
   snd (page_load path1 doc lib) = snd (page_load path2 doc lib) \<and>
   scheduled (effects (fst (page_load path doc1 lib1))) =
     scheduled (effects (fst (page_load path doc2 lib2)))"
proof -
  obtain pre r where
    "\<forall>path. constructed (effects (fst (page_load path doc lib))) = pre \<and>
             snd (page_load path doc lib) = r"
    using page_load_constructed [of doc lib] by blast
  then show ?thesis
    by (simp add: page_load_scheduled)
qed

theorem behaviours_independent_witness:
  "constructed (effects (fst (page_load ''/'' sample_document stub_library))) =
     constructed (effects (fst (page_load ''/scan'' sample_document stub_library))) \<and>
   snd (page_load ''/'' sample_document stub_library) =
     snd (page_load ''/scan'' sample_document stub_library) \<and>
   scheduled (effects (fst (page_load ''/'' sample_document stub_library))) =
     scheduled (effects (fst (page_load ''/'' plain_document no_library)))"
  by (rule behaviours_independent)

text \<open>
  C9. The two parts run one after the other in the order of the source. The log of a
  page load is: the read of the path, the call of \<^verbatim>\<open>setTimeout\<close> if the path is the root,
  the query of the document, then the constructor calls. So the path check and the
  arming of the timer come before every constructor call, and the callback of the timer
  is not in the log of the listener at all: the environment runs it after the listener
  has returned.
\<close>

theorem refresh_before_tooltips:
  "effects (fst (page_load path doc lib)) =
     GetPathname # (if path = ''/'' then [SetTimeout Reload 30000] else [])
     @ QuerySelectorAll marker
     # map NewTooltip (constructed (effects (fst (page_load path doc lib)))) \<and>
   (\<forall>i j. i < length (effects (fst (page_load path doc lib))) \<and>
          j < length (effects (fst (page_load path doc lib))) \<and>
          (effects (fst (page_load path doc lib)) ! i = GetPathname \<or>
           (\<exists>a d. effects (fst (page_load path doc lib)) ! i = SetTimeout a d)) \<and>
          (\<exists>el. effects (fst (page_load path doc lib)) ! j = NewTooltip el)
        \<longrightarrow> i < j)"
proof -
  let ?es = "effects (fst (page_load path doc lib))"
  define first where "first =
     GetPathname # (if path = ''/'' then [SetTimeout Reload 30000] else []) @ [QuerySelectorAll marker]"
  obtain pre r where "page_load path doc lib =
        (\<lparr>pathname = path, document = doc, bootstrap = lib,
          effects = GetPathname # (if path = ''/'' then [SetTimeout Reload 30000] else [])
                    @ QuerySelectorAll marker # map NewTooltip pre\<rparr>, r)"
    using page_load_shape [of doc lib] by blast
  then have es: "?es = first @ map NewTooltip pre"
    by (simp add: first_def)
  have no_call: "e \<noteq> NewTooltip el" if "e \<in> set first" for e el
    using that by (auto simp: first_def split: if_splits)
  have "constructed first = []"
    by (simp add: first_def constructed_def)
  with es have pre: "constructed ?es = pre"
    using constructed_NewTooltip [of pre] by (simp add: constructed_def)
  have order: "i < j"
    if i: "i < length ?es" and j: "j < length ?es"
      and early: "?es ! i = GetPathname \<or> (\<exists>a d. ?es ! i = SetTimeout a d)"
      and late: "\<exists>el. ?es ! j = NewTooltip el" for i j
  proof -
    have "i < length first"
    proof (rule ccontr)
      assume "\<not> i < length first"
      with i es have "?es ! i = NewTooltip (pre ! (i - length first))"
        by (simp add: nth_append)
      with early show False by auto
    qed
    moreover have "length first \<le> j"
    proof (rule ccontr)
      assume "\<not> length first \<le> j"
      then have short: "j < length first" by simp
      with es have "?es ! j = first ! j"
        by (simp add: nth_append)
      moreover from short have "first ! j \<in> set first"
        by (rule nth_mem)
      ultimately show False using late no_call by auto
    qed
    ultimately show ?thesis by simp
  qed
  from es pre have "?es = GetPathname # (if path = ''/'' then [SetTimeout Reload 30000] else [])
     @ QuerySelectorAll marker # map NewTooltip (constructed ?es)"
    by (simp add: first_def)
  with order show ?thesis by blast
qed

theorem refresh_before_tooltips_witness:
  "effects (fst (page_load ''/'' sample_document stub_library)) =
     [GetPathname, SetTimeout Reload 30000, QuerySelectorAll marker]
     @ map NewTooltip (marked_elements sample_document) \<and>
   length (effects (fst (page_load ''/'' sample_document stub_library))) = 6 \<and>
   effects (fst (page_load ''/'' sample_document stub_library)) ! 1 = SetTimeout Reload 30000 \<and>
   effects (fst (page_load ''/'' sample_document stub_library)) ! 3 =
     NewTooltip (Element 2 ''a'' [(''href'', ''/scan''), (''data-bs-toggle'', ''tooltip''), (''title'', ''Scan'')]
           [Text ''Scan'']) \<and>
   (1::nat) < 3"
proof -
  have calls: "constructed (effects (fst (page_load ''/'' sample_document stub_library))) =
      marked_elements sample_document"
    by (simp add: unfold_listener unfold_samples)
  have marked: "marked_elements sample_document =
     [Element 2 ''a'' [(''href'', ''/scan''), (''data-bs-toggle'', ''tooltip''), (''title'', ''Scan'')]
           [Text ''Scan''],
      Element 4 ''span'' [(''data-bs-toggle'', ''tooltip'')] [],
      Element 6 ''i'' [(''data-bs-toggle'', ''tooltip''), (''title'', ''Up'')] []]"
    by (simp add: unfold_listener unfold_samples)
  from refresh_before_tooltips [of "''/''" sample_document stub_library] calls
  have log: "effects (fst (page_load ''/'' sample_document stub_library)) =
     [GetPathname, SetTimeout Reload 30000, QuerySelectorAll marker]
     @ map NewTooltip (marked_elements sample_document)"
    by simp
  then show ?thesis
    by (simp add: marked)
qed

text \<open>
  C10. The selector needs the exact value: an element whose \<^verbatim>\<open>data-bs-toggle\<close> attribute
  is present with any value other than \<open>tooltip\<close> is never given to the constructor.
\<close>

theorem exact_value_required:
  "getAttribute el ''data-bs-toggle'' = Some v \<Longrightarrow> v \<noteq> ''tooltip'' \<Longrightarrow>
     el \<notin> set (constructed (effects (fst (page_load path doc lib))))"
  using set_constructed_marked [of el path doc lib] by (auto simp: marker_def)

theorem exact_value_required_witness:
  "getAttribute (Element 3 ''button'' [(''data-bs-toggle'', ''modal'')] []) ''data-bs-toggle'' = Some ''modal'' \<and>
   ''modal'' \<noteq> ''tooltip'' \<and>
   Element 3 ''button'' [(''data-bs-toggle'', ''modal'')] [] \<notin>
     set (constructed (effects (fst (page_load ''/''
       [Element 3 ''button'' [(''data-bs-toggle'', ''modal'')] [],
        Element 4 ''a'' [(''data-bs-toggle'', ''Tooltip'')] [],
        Element 5 ''a'' [(''data-bs-toggle'', ''tooltip '')] [],
        Element 6 ''a'' [(''data-bs-toggle'', ''tooltip'')] []] stub_library)))) \<and>
   Element 4 ''a'' [(''data-bs-toggle'', ''Tooltip'')] [] \<notin>
     set (constructed (effects (fst (page_load ''/''
       [Element 3 ''button'' [(''data-bs-toggle'', ''modal'')] [],
        Element 4 ''a'' [(''data-bs-toggle'', ''Tooltip'')] [],
        Element 5 ''a'' [(''data-bs-toggle'', ''tooltip '')] [],
        Element 6 ''a'' [(''data-bs-toggle'', ''tooltip'')] []] stub_library)))) \<and>
   Element 5 ''a'' [(''data-bs-toggle'', ''tooltip '')] [] \<notin>
     set (constructed (effects (fst (page_load ''/''
       [Element 3 ''button'' [(''data-bs-toggle'', ''modal'')] [],
        Element 4 ''a'' [(''data-bs-toggle'', ''Tooltip'')] [],
        Element 5 ''a'' [(''data-bs-toggle'', ''tooltip '')] [],
        Element 6 ''a'' [(''data-bs-toggle'', ''tooltip'')] []] stub_library))))"
proof -
  let ?doc = "[Element 3 ''button'' [(''data-bs-toggle'', ''modal'')] [],
        Element 4 ''a'' [(''data-bs-toggle'', ''Tooltip'')] [],
        Element 5 ''a'' [(''data-bs-toggle'', ''tooltip '')] [],
        Element 6 ''a'' [(''data-bs-toggle'', ''tooltip'')] []]"
  have "Element 3 ''button'' [(''data-bs-toggle'', ''modal'')] [] \<notin>
     set (constructed (effects (fst (page_load ''/'' ?doc stub_library))))"
    by (rule exact_value_required [where v = "''modal''"]) simp_all
  moreover have "Element 4 ''a'' [(''data-bs-toggle'', ''Tooltip'')] [] \<notin>
     set (constructed (effects (fst (page_load ''/'' ?doc stub_library))))"
    by (rule exact_value_required [where v = "''Tooltip''"]) simp_all
  moreover have "Element 5 ''a'' [(''data-bs-toggle'', ''tooltip '')] [] \<notin>
     set (constructed (effects (fst (page_load ''/'' ?doc stub_library))))"
    by (rule exact_value_required [where v = "''tooltip ''"]) simp_all
  ultimately show ?thesis by simp
qed

end
